theory Spec2Isabelle
  imports Main "HOL-Library.AList"
begin

section \<open>The remote backend as the services see it\<close>

text \<open>
  The services in \<^verbatim>\<open>statsService.ts\<close> and the page \<^verbatim>\<open>Sectors.tsx\<close> talk to a hosted
  backend through a query builder and through mutation hooks. Neither is part of the
  sources, so both are parameters of the model: a backend maps the query the code builds
  to the promise the code awaits, and a mutation maps its payload to the outcome of
  \<^verbatim>\<open>mutateAsync\<close>.

  An instant is a number of milliseconds since the epoch (what \<^verbatim>\<open>Date\<close> holds; an ISO
  string such as \<^verbatim>\<open>created_at\<close> stands for its instant).
\<close>

type_synonym timestamp = int

text \<open>The \<^verbatim>\<open>code\<close> property of a thrown value: absent, a string or a number.\<close>

datatype js_code = NoCode | StrCode string | NumCode int

record js_error =
  code :: js_code
  message :: string

text \<open>The \<^verbatim>\<open>count\<close> property of a query result: \<^verbatim>\<open>null\<close>, \<^verbatim>\<open>undefined\<close> or a number.\<close>

datatype js_count = Null | Undefined | Num int

text \<open>
  A row of a result. Every projection the services select carries \<^verbatim>\<open>created_at\<close>; the
  other selected columns are passed through untouched.
\<close>

record row =
  created_at :: timestamp
  other_columns :: "(string \<times> string) list"

text \<open>The object a fulfilled query resolves to: \<^verbatim>\<open>{ data, error, count }\<close>.\<close>

record response =
  data :: "row list option"
  error :: "js_error option"
  count :: js_count

text \<open>
  A promise, once settled: the moment it settles and either the reason of its rejection
  (\<open>Inl\<close>) or the value it is fulfilled with (\<open>Inr\<close>).
\<close>

type_synonym 'a promise = "nat \<times> (js_error + 'a)"

definition await :: "'a promise \<Rightarrow> js_error + 'a" where
  "await p = snd p"

text \<open>
  \<^verbatim>\<open>Promise.all\<close>: fulfilled with all the values in array order when no promise rejects,
  otherwise rejected with the reason of the rejection that settles first (the earlier
  array position on a tie).
\<close>

fun settle_all :: "'a promise list \<Rightarrow> (nat \<times> js_error) + 'a list" where
  "settle_all [] = Inr []"
| "settle_all (p # ps) =
     (case snd p of
        Inr v \<Rightarrow> (case settle_all ps of Inl r \<Rightarrow> Inl r | Inr vs \<Rightarrow> Inr (v # vs))
      | Inl e \<Rightarrow>
          (case settle_all ps of
             Inl (t', e') \<Rightarrow> if t' < fst p then Inl (t', e') else Inl (fst p, e)
           | Inr vs \<Rightarrow> Inl (fst p, e)))"

definition promise_all :: "'a promise list \<Rightarrow> js_error + 'a list" where
  "promise_all ps = (case settle_all ps of Inl (t, e) \<Rightarrow> Inl e | Inr vs \<Rightarrow> Inr vs)"

text \<open>
  The query the builder accumulates: \<^verbatim>\<open>from(t).select(cols, opts)\<close>, then optionally
  \<^verbatim>\<open>.order(col, { ascending })\<close>, \<^verbatim>\<open>.limit(n)\<close> and \<^verbatim>\<open>.gte(col, v)\<close>.
\<close>

record query =
  from_table :: string
  select_columns :: string
  count_exact_head :: bool
  order_by :: "(string \<times> bool) option"
  limit_to :: "int option"
  gte_filter :: "(string \<times> timestamp) option"

definition from_select :: "string \<Rightarrow> string \<Rightarrow> bool \<Rightarrow> query" where
  "from_select t cols head_count =
     \<lparr>from_table = t, select_columns = cols, count_exact_head = head_count,
      order_by = None, limit_to = None, gte_filter = None\<rparr>"

definition order_q :: "string \<Rightarrow> bool \<Rightarrow> query \<Rightarrow> query" where
  "order_q col ascending q = q\<lparr>order_by := Some (col, ascending)\<rparr>"

definition limit_q :: "int \<Rightarrow> query \<Rightarrow> query" where
  "limit_q n q = q\<lparr>limit_to := Some n\<rparr>"

definition gte_q :: "string \<Rightarrow> timestamp \<Rightarrow> query \<Rightarrow> query" where
  "gte_q col v q = q\<lparr>gte_filter := Some (col, v)\<rparr>"

type_synonym backend = "query \<Rightarrow> response promise"

text \<open>The \<^verbatim>\<open>TypeError\<close> raised by reading a property of \<^verbatim>\<open>undefined\<close>.\<close>

definition type_error :: js_error where
  "type_error = \<lparr>code = NoCode, message = ''TypeError''\<rparr>"

section \<open>statsService: getDashboardStats\<close>

record DashboardStats =
  contactsCount :: int
  projectsCount :: int
  blogPostsCount :: int
  servicesCount :: int
  sectorsCount :: int
  navigationItemsCount :: int
  skillsCount :: int
  chatbotKnowledgeCount :: int

text \<open>\<^verbatim>\<open>count || 0\<close>: a falsy count (\<^verbatim>\<open>null\<close>, \<^verbatim>\<open>undefined\<close>, \<^verbatim>\<open>0\<close>) gives \<^verbatim>\<open>0\<close>.\<close>

fun or_zero :: "js_count \<Rightarrow> int" where
  "or_zero Null = 0"
| "or_zero Undefined = 0"
| "or_zero (Num n) = (if n = 0 then 0 else n)"

text \<open>\<^verbatim>\<open>supabase.from(t).select('id', { count: 'exact', head: true })\<close>\<close>

definition count_query :: "string \<Rightarrow> query" where
  "count_query t = from_select t ''id'' True"

text \<open>
  The \<^verbatim>\<open>catch\<close> block logs and rethrows, so a rejection of \<^verbatim>\<open>Promise.all\<close> is the
  result \<open>Inl\<close>. The destructuring reads the first eight elements of the array.
\<close>

definition getDashboardStats :: "backend \<Rightarrow> js_error + DashboardStats" where
  "getDashboardStats supabase =
     (case promise_all
        [supabase (count_query ''contact''),
         supabase (count_query ''projects''),
         supabase (count_query ''blog_posts''),
         supabase (count_query ''services''),
         supabase (count_query ''sectors''),
         supabase (count_query ''navigation''),
         supabase (count_query ''skills''),
         supabase (count_query ''chatbot_knowledge'')] of
        Inl e \<Rightarrow> Inl e
      | Inr (contactsResult # projectsResult # blogPostsResult # servicesResult #
             sectorsResult # navigationResult # skillsResult # chatbotResult # _) \<Rightarrow>
          Inr \<lparr>contactsCount = or_zero (count contactsResult),
               projectsCount = or_zero (count projectsResult),
               blogPostsCount = or_zero (count blogPostsResult),
               servicesCount = or_zero (count servicesResult),
               sectorsCount = or_zero (count sectorsResult),
               navigationItemsCount = or_zero (count navigationResult),
               skillsCount = or_zero (count skillsResult),
               chatbotKnowledgeCount = or_zero (count chatbotResult)\<rparr>
      | Inr _ \<Rightarrow> Inl type_error)"

text \<open>A count as the backend reports it: absent, or the number of rows.\<close>

fun valid_count :: "js_count \<Rightarrow> bool" where
  "valid_count (Num n) = (0 \<le> n)"
| "valid_count _ = True"

section \<open>statsService: the recent-item readers\<close>

text \<open>A default parameter value applies when the argument is omitted.\<close>

fun default_to :: "int \<Rightarrow> int option \<Rightarrow> int" where
  "default_to d None = d"
| "default_to d (Some n) = n"

text \<open>\<^verbatim>\<open>data || []\<close>: an array is truthy even when empty, \<^verbatim>\<open>null\<close> is not.\<close>

fun or_empty :: "row list option \<Rightarrow> row list" where
  "or_empty None = []"
| "or_empty (Some rows) = rows"

text \<open>
  \<^verbatim>\<open>from(t).select(cols).order('created_at', { ascending: false }).limit(limit)\<close>
\<close>

definition recent_query :: "string \<Rightarrow> string \<Rightarrow> int \<Rightarrow> query" where
  "recent_query t cols limit =
     limit_q limit (order_q ''created_at'' False (from_select t cols False))"

text \<open>
  The body of the \<^verbatim>\<open>try\<close> block of a reader, from the awaited promise on:
  \<^verbatim>\<open>const { data, error } = await ...; if (error) throw error; return data || [];\<close>
\<close>

definition data_or_throw :: "response promise \<Rightarrow> js_error + row list" where
  "data_or_throw p =
     (case await p of
        Inl reason \<Rightarrow> Inl reason
      | Inr res \<Rightarrow> (case error res of Some e \<Rightarrow> Inl e | None \<Rightarrow> Inr (or_empty (data res))))"

text \<open>
  Each reader returns \<open>Inr\<close> of what its caller receives; \<open>Inl\<close> would be an exception
  that leaves the function. The \<^verbatim>\<open>catch\<close> block logs and returns \<^verbatim>\<open>[]\<close>.
\<close>

definition getRecentContacts :: "backend \<Rightarrow> int option \<Rightarrow> js_error + row list" where
  "getRecentContacts supabase limit_arg =
     (let limit = default_to 5 limit_arg in
      case data_or_throw
             (supabase (recent_query ''contact'' ''id, name, email, created_at'' limit)) of
        Inl e \<Rightarrow> Inr []
      | Inr rows \<Rightarrow> Inr rows)"

definition getRecentProjects :: "backend \<Rightarrow> int option \<Rightarrow> js_error + row list" where
  "getRecentProjects supabase limit_arg =
     (let limit = default_to 5 limit_arg in
      case data_or_throw
             (supabase (recent_query ''projects'' ''id, title, status, created_at'' limit)) of
        Inl e \<Rightarrow> Inr []
      | Inr rows \<Rightarrow> Inr rows)"

definition getRecentBlogPosts :: "backend \<Rightarrow> int option \<Rightarrow> js_error + row list" where
  "getRecentBlogPosts supabase limit_arg =
     (let limit = default_to 5 limit_arg in
      case data_or_throw
             (supabase (recent_query ''blog_posts''
                          ''id, title, status, published_at, created_at'' limit)) of
        Inl e \<Rightarrow> Inr []
      | Inr rows \<Rightarrow> Inr rows)"

section \<open>statsService: getStatsEvolution\<close>

text \<open>
  What the service takes from the platform's \<^verbatim>\<open>Date\<close>: the current instant
  (\<^verbatim>\<open>new Date()\<close>), calendar arithmetic in the local time zone
  (\<^verbatim>\<open>d.setDate(d.getDate() - n)\<close>) and the local day of an instant written in the French
  locale (\<^verbatim>\<open>new Date(t).toLocaleDateString('fr-FR')\<close>).
\<close>

record date_env =
  now :: timestamp
  setDate_minus :: "timestamp \<Rightarrow> int \<Rightarrow> timestamp"
  toLocaleDateString_fr :: "timestamp \<Rightarrow> string"

definition thirtyDaysAgo :: "date_env \<Rightarrow> timestamp" where
  "thirtyDaysAgo env = setDate_minus env (now env) 30"

text \<open>
  \<^verbatim>\<open>Record<string, number>\<close>: an object keeps its string keys in insertion order, so it
  is an association list with distinct keys. One step of the \<^verbatim>\<open>forEach\<close>:
  \<^verbatim>\<open>grouped[date] = (grouped[date] || 0) + 1\<close>.
\<close>

type_synonym buckets = "(string \<times> int) list"

fun or_zero_num :: "int option \<Rightarrow> int" where
  "or_zero_num None = 0"
| "or_zero_num (Some n) = (if n = 0 then 0 else n)"

definition count_item :: "date_env \<Rightarrow> row \<Rightarrow> buckets \<Rightarrow> buckets" where
  "count_item env item grouped =
     (let date = toLocaleDateString_fr env (created_at item) in
      AList.update date (or_zero_num (map_of grouped date) + 1) grouped)"

definition groupByDay :: "date_env \<Rightarrow> row list \<Rightarrow> buckets" where
  "groupByDay env rows = fold (count_item env) rows []"

record StatsEvolution =
  contacts :: buckets
  projects :: buckets
  blogPosts :: buckets

text \<open>\<^verbatim>\<open>from(t).select('created_at').gte('created_at', thirtyDaysAgo.toISOString())\<close>\<close>

definition evolution_query :: "date_env \<Rightarrow> string \<Rightarrow> query" where
  "evolution_query env t =
     gte_q ''created_at'' (thirtyDaysAgo env) (from_select t ''created_at'' False)"

definition getStatsEvolution :: "date_env \<Rightarrow> backend \<Rightarrow> js_error + StatsEvolution" where
  "getStatsEvolution env supabase =
     (case (case promise_all
                   [supabase (evolution_query env ''contact''),
                    supabase (evolution_query env ''projects''),
                    supabase (evolution_query env ''blog_posts'')] of
              Inl reason \<Rightarrow> Inl reason
            | Inr (contactsData # projectsData # blogPostsData # _) \<Rightarrow>
                Inr \<lparr>contacts = groupByDay env (or_empty (data contactsData)),
                     projects = groupByDay env (or_empty (data projectsData)),
                     blogPosts = groupByDay env (or_empty (data blogPostsData))\<rparr>
            | Inr _ \<Rightarrow> Inl type_error) of
        Inl e \<Rightarrow> Inr \<lparr>contacts = [], projects = [], blogPosts = []\<rparr>
      | Inr evolution \<Rightarrow> Inr evolution)"

section \<open>Outcomes of a query\<close>


definition rejected :: "'a promise \<Rightarrow> bool" where
  "rejected p = (case snd p of Inl e \<Rightarrow> True | Inr v \<Rightarrow> False)"

section \<open>The remote service\<close>

text \<open>
  Modelled from the spec: the select operation of the remote backend collaborator, which
  is not part of the sources (section 6: per named collection, a select with projection,
  order and limit; section 4.1: the readers order by creation timestamp and cap the
  result at the limit, the evolution fetches the items created within its window). A
  collection is the list of its rows. A select keeps the rows created at or after the
  bound of a \<^verbatim>\<open>gte\<close> filter on \<^verbatim>\<open>created_at\<close>, puts them in the order asked for on
  \<^verbatim>\<open>created_at\<close> and keeps at most as many as the limit. The spec says nothing of a
  negative limit, and no property below depends on it.
\<close>

definition select_rows :: "(string \<Rightarrow> row list) \<Rightarrow> query \<Rightarrow> row list" where
  "select_rows db q =
     (let rows = db (from_table q);
          kept = (case gte_filter q of
                    None \<Rightarrow> rows
                  | Some (col, v) \<Rightarrow>
                      if col = ''created_at'' then filter (\<lambda>r. v \<le> created_at r) rows
                      else rows);
          ordered = (case order_by q of
                       None \<Rightarrow> kept
                     | Some (col, ascending) \<Rightarrow>
                         if col = ''created_at''
                         then (if ascending then sort_key created_at kept
                               else rev (sort_key created_at kept))
                         else kept)
      in case limit_to q of None \<Rightarrow> ordered | Some n \<Rightarrow> take (nat n) ordered)"

text \<open>
  The state of the remote service when a query reaches it: the collections, and for each
  query whether its promise rejects (and with what), whether it is fulfilled with an
  error instead of data, and when it settles.
\<close>

record remote =
  tables :: "string \<Rightarrow> row list"
  rejection :: "query \<Rightarrow> js_error option"
  fault :: "query \<Rightarrow> js_error option"
  settles_at :: "query \<Rightarrow> nat"

definition succeeds :: "remote \<Rightarrow> query \<Rightarrow> bool" where
  "succeeds r q = (rejection r q = None \<and> fault r q = None)"

text \<open>
  Modelled from the spec: the answer of the remote backend collaborator to a query
  (section 6: a head-only count carries no row payload; a failure is a structured
  error). A rejected promise carries its reason; a fulfilled one carries either an error
  and no data, or the count of the selected rows for a head-only count, or the selected
  rows.
\<close>

definition remote_backend :: "remote \<Rightarrow> backend" where
  "remote_backend r q =
     (settles_at r q,
      case rejection r q of
        Some reason \<Rightarrow> Inl reason
      | None \<Rightarrow>
          (case fault r q of
             Some e \<Rightarrow> Inr \<lparr>data = None, error = Some e, count = Null\<rparr>
           | None \<Rightarrow>
               if count_exact_head q
               then Inr \<lparr>data = None, error = None,
                         count = Num (int (length (select_rows (tables r) q)))\<rparr>
               else Inr \<lparr>data = Some (select_rows (tables r) q), error = None,
                         count = Null\<rparr>))"

section \<open>The Sectors page\<close>

text \<open>
  The declarations of \<^verbatim>\<open>Sector\<close> and \<^verbatim>\<open>SectorFormData\<close> are not among the sources. The
  page reads the properties below; it only copies the values of the form, so their type
  is a parameter. Property names that several objects share carry a prefix here:
  \<open>form_\<close> on the form, \<open>cm_\<close> on \<^verbatim>\<open>content_modal\<close>, \<open>sd_\<close> on \<^verbatim>\<open>sectorData\<close> and
  \<open>sector_\<close> on a \<^verbatim>\<open>Sector\<close>.
\<close>

record Sector =
  sector_id :: string
  sector_title :: string

record 'v SectorFormData =
  form_id :: 'v
  form_title :: 'v
  form_description :: 'v
  form_services :: 'v
  form_icon :: 'v
  form_image :: 'v
  hero_title :: 'v
  hero_subtitle :: 'v
  modal_description :: 'v
  highlights :: 'v
  tech_stack :: 'v
  case_study_title :: 'v
  case_study_results :: 'v
  cta_text :: 'v

record 'v CaseStudy =
  title :: 'v
  results :: 'v

record 'v ContentModal =
  cm_hero_title :: 'v
  cm_hero_subtitle :: 'v
  cm_description :: 'v
  cm_highlights :: 'v
  cm_tech_stack :: 'v
  case_study :: "'v CaseStudy"
  cm_cta_text :: 'v

record 'v SectorData =
  sd_id :: 'v
  sd_title :: 'v
  sd_description :: 'v
  sd_services :: 'v
  sd_icon :: 'v
  sd_image :: 'v
  content_modal :: "'v ContentModal"

text \<open>The two object literals at the head of \<^verbatim>\<open>handleSubmit\<close>.\<close>

definition build_content_modal :: "'v SectorFormData \<Rightarrow> 'v ContentModal" where
  "build_content_modal formData =
     \<lparr>cm_hero_title = hero_title formData,
      cm_hero_subtitle = hero_subtitle formData,
      cm_description = modal_description formData,
      cm_highlights = highlights formData,
      cm_tech_stack = tech_stack formData,
      case_study = \<lparr>title = case_study_title formData, results = case_study_results formData\<rparr>,
      cm_cta_text = cta_text formData\<rparr>"

definition build_sectorData :: "'v SectorFormData \<Rightarrow> 'v SectorData" where
  "build_sectorData formData =
     \<lparr>sd_id = form_id formData,
      sd_title = form_title formData,
      sd_description = form_description formData,
      sd_services = form_services formData,
      sd_icon = form_icon formData,
      sd_image = form_image formData,
      content_modal = build_content_modal formData\<rparr>"

text \<open>
  The texts of the notifications, in the order of the source (accents left out):
  \<^item> \<open>Sector_updated\<close>: \<^verbatim>\<open>Secteur mis a jour avec succes !\<close>
  \<^item> \<open>Sector_created\<close>: \<^verbatim>\<open>Secteur cree avec succes !\<close>
  \<^item> \<open>Duplicate_id\<close>: \<^verbatim>\<open>Un secteur avec cet ID existe deja.\<close>
  \<^item> \<open>Update_failed\<close>: \<^verbatim>\<open>Erreur lors de la mise a jour du secteur.\<close>
  \<^item> \<open>Create_failed\<close>: \<^verbatim>\<open>Erreur lors de la creation du secteur.\<close>
  \<^item> \<open>Sector_deleted\<close>: \<^verbatim>\<open>Secteur supprime avec succes !\<close>
  \<^item> \<open>Delete_failed\<close>: \<^verbatim>\<open>Erreur lors de la suppression du secteur.\<close>
\<close>

datatype toast_message =
  Sector_updated | Sector_created | Duplicate_id | Update_failed | Create_failed
  | Sector_deleted | Delete_failed

text \<open>What a handler does besides setting state, in the order it does it.\<close>

datatype 'v effect =
  Create_call "'v SectorData"
  | Update_call string "'v SectorData"
  | Delete_call string
  | Toast_success toast_message
  | Toast_error toast_message
  | Console_error js_error

text \<open>The outcome of \<^verbatim>\<open>mutateAsync\<close> for each mutation hook: rejected (\<open>Inl\<close>) or resolved.\<close>

record 'v mutations =
  createMutation :: "'v SectorData \<Rightarrow> js_error + unit"
  updateMutation :: "string \<Rightarrow> 'v SectorData \<Rightarrow> js_error + unit"
  deleteMutation :: "string \<Rightarrow> js_error + unit"

record page_state =
  isModalOpen :: bool
  isDeleteModalOpen :: bool
  editingSector :: "Sector option"
  deletingSector :: "Sector option"

definition initial_state :: page_state where
  "initial_state =
     \<lparr>isModalOpen = False, isDeleteModalOpen = False, editingSector = None,
      deletingSector = None\<rparr>"

definition handleCreate :: "page_state \<Rightarrow> page_state" where
  "handleCreate s = s\<lparr>editingSector := None, isModalOpen := True\<rparr>"

definition handleEdit :: "Sector \<Rightarrow> page_state \<Rightarrow> page_state" where
  "handleEdit sector s = s\<lparr>editingSector := Some sector, isModalOpen := True\<rparr>"

definition handleDeleteClick :: "Sector \<Rightarrow> page_state \<Rightarrow> page_state" where
  "handleDeleteClick sector s = s\<lparr>deletingSector := Some sector, isDeleteModalOpen := True\<rparr>"

definition handleCloseModal :: "page_state \<Rightarrow> page_state" where
  "handleCloseModal s = s\<lparr>isModalOpen := False, editingSector := None\<rparr>"

definition handleCloseDeleteModal :: "page_state \<Rightarrow> page_state" where
  "handleCloseDeleteModal s = s\<lparr>isDeleteModalOpen := False, deletingSector := None\<rparr>"

text \<open>
  The \<^verbatim>\<open>catch\<close> block of \<^verbatim>\<open>handleSubmit\<close>: it logs, then tests the code of the error
  before it looks at the mode.
\<close>

definition submit_catch :: "page_state \<Rightarrow> js_error \<Rightarrow> 'v effect list" where
  "submit_catch s err =
     [Console_error err,
      Toast_error
        (if code err = StrCode ''23505'' then Duplicate_id
         else (case editingSector s of Some sector \<Rightarrow> Update_failed | None \<Rightarrow> Create_failed))]"

definition handleSubmit ::
  "'v mutations \<Rightarrow> page_state \<Rightarrow> 'v SectorFormData \<Rightarrow> page_state \<times> 'v effect list" where
  "handleSubmit m s formData =
     (let sectorData = build_sectorData formData in
      case editingSector s of
        Some sector \<Rightarrow>
          (case updateMutation m (sector_id sector) sectorData of
             Inr ok \<Rightarrow>
               (s\<lparr>isModalOpen := False, editingSector := None\<rparr>,
                [Update_call (sector_id sector) sectorData, Toast_success Sector_updated])
           | Inl err \<Rightarrow>
               (s, Update_call (sector_id sector) sectorData # submit_catch s err))
      | None \<Rightarrow>
          (case createMutation m sectorData of
             Inr ok \<Rightarrow>
               (s\<lparr>isModalOpen := False, editingSector := None\<rparr>,
                [Create_call sectorData, Toast_success Sector_created])
           | Inl err \<Rightarrow> (s, Create_call sectorData # submit_catch s err)))"

text \<open>
  The call \<^verbatim>\<open>handleSubmit\<close> awaits, which depends on the mode, and its outcome.
\<close>

definition mutation_call :: "page_state \<Rightarrow> 'v SectorFormData \<Rightarrow> 'v effect" where
  "mutation_call s formData =
     (case editingSector s of
        Some sector \<Rightarrow> Update_call (sector_id sector) (build_sectorData formData)
      | None \<Rightarrow> Create_call (build_sectorData formData))"

definition awaited_mutation ::
  "'v mutations \<Rightarrow> page_state \<Rightarrow> 'v SectorFormData \<Rightarrow> js_error + unit" where
  "awaited_mutation m s formData =
     (case editingSector s of
        Some sector \<Rightarrow> updateMutation m (sector_id sector) (build_sectorData formData)
      | None \<Rightarrow> createMutation m (build_sectorData formData))"

definition handleConfirmDelete ::
  "'v mutations \<Rightarrow> page_state \<Rightarrow> page_state \<times> 'v effect list" where
  "handleConfirmDelete m s =
     (case deletingSector s of
        None \<Rightarrow> (s, [])
      | Some sector \<Rightarrow>
          (case deleteMutation m (sector_id sector) of
             Inr ok \<Rightarrow>
               (s\<lparr>isDeleteModalOpen := False, deletingSector := None\<rparr>,
                [Delete_call (sector_id sector), Toast_success Sector_deleted])
           | Inl err \<Rightarrow>
               (s, [Delete_call (sector_id sector), Console_error err,
                    Toast_error Delete_failed])))"

text \<open>
  The same backend with the \<^verbatim>\<open>error\<close> property of every fulfilled result replaced
  (by \<open>f\<close> of the result); settle times, rejections, data and counts are kept.
\<close>

definition with_errors :: "(response \<Rightarrow> js_error option) \<Rightarrow> backend \<Rightarrow> backend" where
  "with_errors f supabase q =
     (fst (supabase q),
      case snd (supabase q) of
        Inl reason \<Rightarrow> Inl reason
      | Inr res \<Rightarrow> Inr (res\<lparr>error := f res\<rparr>))"

section \<open>Concrete backends and inputs\<close>

text \<open>
  The scenario of the specification: the count of \<^verbatim>\<open>contact\<close> is \<^verbatim>\<open>null\<close>, \<^verbatim>\<open>projects\<close>
  has three rows, the other collections are empty; the result for \<^verbatim>\<open>skills\<close> has no
  \<^verbatim>\<open>count\<close> property at all.
\<close>

definition scenario_backend :: backend where
  "scenario_backend q =
     (0, Inr \<lparr>data = None, error = None,
              count = (if from_table q = ''contact'' then Null
                       else if from_table q = ''projects'' then Num 3
                       else if from_table q = ''skills'' then Undefined
                       else Num 0)\<rparr>)"

definition network_error :: js_error where
  "network_error = \<lparr>code = NoCode, message = ''Failed to fetch''\<rparr>"

definition unique_violation :: js_error where
  "unique_violation = \<lparr>code = StrCode ''23505'', message = ''duplicate key value''\<rparr>"

definition permission_denied :: js_error where
  "permission_denied = \<lparr>code = StrCode ''42501'', message = ''permission denied''\<rparr>"

text \<open>A backend on which every query settles fulfilled with an error and nothing else.\<close>

definition erroring_backend :: backend where
  "erroring_backend q = (0, Inr \<lparr>data = None, error = Some permission_denied, count = Null\<rparr>)"


definition day :: int where
  "day = 86400000"

text \<open>
  Seven contacts and a project. With the query sent on the 100th day after the epoch, the
  contacts of the days 70 to 99 are within the last thirty days; one contact is dated
  exactly thirty days before the query and one a millisecond earlier.
\<close>

definition sample_db :: "string \<Rightarrow> row list" where
  "sample_db t =
     (if t = ''contact''
      then [\<lparr>created_at = 98 * day, other_columns = [(''name'', ''Ada'')]\<rparr>,
            \<lparr>created_at = 99 * day + 5, other_columns = [(''name'', ''Bob'')]\<rparr>,
            \<lparr>created_at = 99 * day, other_columns = [(''name'', ''Cleo'')]\<rparr>,
            \<lparr>created_at = 12 * day, other_columns = [(''name'', ''Dan'')]\<rparr>,
            \<lparr>created_at = 75 * day, other_columns = [(''name'', ''Eve'')]\<rparr>,
            \<lparr>created_at = 70 * day, other_columns = [(''name'', ''Fay'')]\<rparr>,
            \<lparr>created_at = 70 * day - 1, other_columns = [(''name'', ''Gus'')]\<rparr>]
      else if t = ''projects''
      then [\<lparr>created_at = 90 * day, other_columns = [(''title'', ''Site'')]\<rparr>]
      else [])"

text \<open>
  A platform on the 100th day after the epoch, in UTC, which names the days of the
  sample rows in the French format.
\<close>

definition sample_env :: date_env where
  "sample_env =
     \<lparr>now = 100 * day,
      setDate_minus = (\<lambda>t n. t - n * day),
      toLocaleDateString_fr =
        (\<lambda>t. if t div day = 140 then ''21/05/1970''
             else if t div day = 99 then ''10/04/1970''
             else if t div day = 98 then ''09/04/1970''
             else if t div day = 90 then ''01/04/1970''
             else if t div day = 75 then ''17/03/1970''
             else if t div day = 70 then ''12/03/1970''
             else if t div day = 69 then ''11/03/1970''
             else ''autre'')\<rparr>"

text \<open>A remote service on which every query succeeds.\<close>

definition sample_remote :: remote where
  "sample_remote =
     \<lparr>tables = sample_db, rejection = (\<lambda>q. None), fault = (\<lambda>q. None),
      settles_at = (\<lambda>q. 0)\<rparr>"

text \<open>
  A backend on which the query on \<^verbatim>\<open>contact\<close> is fulfilled from the tables and every
  other query rejects later.
\<close>

definition partly_rejecting_backend :: backend where
  "partly_rejecting_backend =
     remote_backend
       (sample_remote
          \<lparr>rejection := (\<lambda>q. if from_table q = ''contact'' then None else Some network_error),
           settles_at := (\<lambda>q. if from_table q = ''contact'' then 0 else 1)\<rparr>)"

text \<open>
  A remote service on which the query on \<^verbatim>\<open>contact\<close> is fulfilled with an error and the
  other queries succeed.
\<close>

definition contact_error_remote :: remote where
  "contact_error_remote =
     sample_remote
       \<lparr>fault := (\<lambda>q. if from_table q = ''contact'' then Some permission_denied else None)\<rparr>"

text \<open>
  A remote service that also holds a contact dated forty days after the query, and on
  which every query succeeds.
\<close>

definition future_remote :: remote where
  "future_remote =
     sample_remote
       \<lparr>tables :=
          (\<lambda>t. if t = ''contact''
               then sample_db t @
                    [\<lparr>created_at = 140 * day, other_columns = [(''name'', ''Hal'')]\<rparr>]
               else sample_db t)\<rparr>"

definition sample_form :: "string SectorFormData" where
  "sample_form =
     \<lparr>form_id = ''sante'', form_title = ''Sante'', form_description = ''Cliniques'',
      form_services = ''audit'', form_icon = ''heart'', form_image = ''sante.png'',
      hero_title = ''E-sante'', hero_subtitle = ''Pour les soignants'',
      modal_description = ''Description longue'', highlights = ''RGPD'',
      tech_stack = ''React'', case_study_title = ''Clinique du Parc'',
      case_study_results = ''+30% de rendez-vous'', cta_text = ''Nous contacter''\<rparr>"

definition sample_sector :: Sector where
  "sample_sector = \<lparr>sector_id = ''finance'', sector_title = ''Finance''\<rparr>"

definition accepting :: "string mutations" where
  "accepting =
     \<lparr>createMutation = (\<lambda>d. Inr ()), updateMutation = (\<lambda>i d. Inr ()),
      deleteMutation = (\<lambda>i. Inr ())\<rparr>"

definition rejecting_with :: "js_error \<Rightarrow> string mutations" where
  "rejecting_with e =
     \<lparr>createMutation = (\<lambda>d. Inl e), updateMutation = (\<lambda>i d. Inl e),
      deleteMutation = (\<lambda>i. Inl e)\<rparr>"

section \<open>Properties of getDashboardStats\<close>

lemma promise_all_Cons_fulfilled:
  "snd p = Inr v \<Longrightarrow>
   promise_all (p # ps) = (case promise_all ps of Inl e \<Rightarrow> Inl e | Inr vs \<Rightarrow> Inr (v # vs))"
  by (simp add: promise_all_def split: sum.splits prod.splits)

lemma promise_all_Nil: "promise_all [] = Inr []"
  by (simp add: promise_all_def)

lemma getDashboardStats_fulfilled:
  assumes "snd (supabase (count_query ''contact'')) = Inr r1"
    and "snd (supabase (count_query ''projects'')) = Inr r2"
    and "snd (supabase (count_query ''blog_posts'')) = Inr r3"
    and "snd (supabase (count_query ''services'')) = Inr r4"
    and "snd (supabase (count_query ''sectors'')) = Inr r5"
    and "snd (supabase (count_query ''navigation'')) = Inr r6"
    and "snd (supabase (count_query ''skills'')) = Inr r7"
    and "snd (supabase (count_query ''chatbot_knowledge'')) = Inr r8"
  shows "getDashboardStats supabase =
     Inr \<lparr>contactsCount = or_zero (count r1), projectsCount = or_zero (count r2),
          blogPostsCount = or_zero (count r3), servicesCount = or_zero (count r4),
          sectorsCount = or_zero (count r5), navigationItemsCount = or_zero (count r6),
          skillsCount = or_zero (count r7), chatbotKnowledgeCount = or_zero (count r8)\<rparr>"
  unfolding getDashboardStats_def
  by (simp add: promise_all_Cons_fulfilled [OF assms(1)] promise_all_Cons_fulfilled [OF assms(2)]
      promise_all_Cons_fulfilled [OF assms(3)] promise_all_Cons_fulfilled [OF assms(4)]
      promise_all_Cons_fulfilled [OF assms(5)] promise_all_Cons_fulfilled [OF assms(6)]
      promise_all_Cons_fulfilled [OF assms(7)] promise_all_Cons_fulfilled [OF assms(8)]
      promise_all_Nil)

text \<open>
  C1. Whatever the eight count queries are fulfilled with, a count being \<^verbatim>\<open>null\<close>,
  \<^verbatim>\<open>undefined\<close> or a number of rows, \<^verbatim>\<open>getDashboardStats\<close> returns a record with the
  eight counters, each of them non-negative and equal to the count reported for its
  collection, or to 0 when that count is \<^verbatim>\<open>null\<close> or \<^verbatim>\<open>undefined\<close>.
\<close>

theorem getDashboardStats_all_keys:
  assumes "snd (supabase (count_query ''contact'')) = Inr r1"
    and "snd (supabase (count_query ''projects'')) = Inr r2"
    and "snd (supabase (count_query ''blog_posts'')) = Inr r3"
    and "snd (supabase (count_query ''services'')) = Inr r4"
    and "snd (supabase (count_query ''sectors'')) = Inr r5"
    and "snd (supabase (count_query ''navigation'')) = Inr r6"
    and "snd (supabase (count_query ''skills'')) = Inr r7"
    and "snd (supabase (count_query ''chatbot_knowledge'')) = Inr r8"
    and "list_all (\<lambda>r. valid_count (count r)) [r1, r2, r3, r4, r5, r6, r7, r8]"
  shows "\<exists>stats. getDashboardStats supabase = Inr stats \<and>
           list_all2
             (\<lambda>v c. 0 \<le> v \<and> v = (case c of Num n \<Rightarrow> n | Null \<Rightarrow> 0 | Undefined \<Rightarrow> 0))
             [contactsCount stats, projectsCount stats, blogPostsCount stats,
              servicesCount stats, sectorsCount stats, navigationItemsCount stats,
              skillsCount stats, chatbotKnowledgeCount stats]
             (map count [r1, r2, r3, r4, r5, r6, r7, r8])"
proof -
  have val: "or_zero c = (case c of Num n \<Rightarrow> n | Null \<Rightarrow> 0 | Undefined \<Rightarrow> 0)" for c
    by (cases c) auto
  have sign: "valid_count c \<Longrightarrow> 0 \<le> (case c of Num n \<Rightarrow> n | Null \<Rightarrow> 0 | Undefined \<Rightarrow> 0)"
    for c
    by (cases c) auto
  from assms(9) show ?thesis
    unfolding getDashboardStats_fulfilled [OF assms(1-8)]
    by (simp add: val sign)
qed

theorem getDashboardStats_all_keys_witness:
  "list_all (\<lambda>t. \<exists>r. snd (scenario_backend (count_query t)) = Inr r \<and> valid_count (count r))
     [''contact'', ''projects'', ''blog_posts'', ''services'', ''sectors'', ''navigation'',
      ''skills'', ''chatbot_knowledge''] \<and>
   getDashboardStats scenario_backend =
     Inr \<lparr>contactsCount = 0, projectsCount = 3, blogPostsCount = 0, servicesCount = 0,
          sectorsCount = 0, navigationItemsCount = 0, skillsCount = 0,
          chatbotKnowledgeCount = 0\<rparr>"
  using getDashboardStats_all_keys [of scenario_backend
      "\<lparr>data = None, error = None, count = Null\<rparr>"
      "\<lparr>data = None, error = None, count = Num 3\<rparr>"
      "\<lparr>data = None, error = None, count = Num 0\<rparr>"
      "\<lparr>data = None, error = None, count = Num 0\<rparr>"
      "\<lparr>data = None, error = None, count = Num 0\<rparr>"
      "\<lparr>data = None, error = None, count = Num 0\<rparr>"
      "\<lparr>data = None, error = None, count = Undefined\<rparr>"
      "\<lparr>data = None, error = None, count = Num 0\<rparr>"]
  by (auto simp add: scenario_backend_def count_query_def from_select_def)

text \<open>
  C9. When the eight count queries all settle fulfilled, \<^verbatim>\<open>getDashboardStats\<close> succeeds
  and reports 0 for every collection whose result carries an error and a \<^verbatim>\<open>null\<close> count;
  the \<^verbatim>\<open>error\<close> property of a fulfilled result is never read, so replacing the errors
  leaves the returned record as it is.
\<close>

theorem getDashboardStats_ignores_error_field:
  assumes "snd (supabase (count_query ''contact'')) = Inr r1"
    and "snd (supabase (count_query ''projects'')) = Inr r2"
    and "snd (supabase (count_query ''blog_posts'')) = Inr r3"
    and "snd (supabase (count_query ''services'')) = Inr r4"
    and "snd (supabase (count_query ''sectors'')) = Inr r5"
    and "snd (supabase (count_query ''navigation'')) = Inr r6"
    and "snd (supabase (count_query ''skills'')) = Inr r7"
    and "snd (supabase (count_query ''chatbot_knowledge'')) = Inr r8"
  shows "\<exists>stats. getDashboardStats supabase = Inr stats \<and>
           list_all2 (\<lambda>v r. error r \<noteq> None \<and> count r = Null \<longrightarrow> v = 0)
             [contactsCount stats, projectsCount stats, blogPostsCount stats,
              servicesCount stats, sectorsCount stats, navigationItemsCount stats,
              skillsCount stats, chatbotKnowledgeCount stats]
             [r1, r2, r3, r4, r5, r6, r7, r8] \<and>
           getDashboardStats (with_errors f supabase) = Inr stats"
proof -
  have moved: "snd (with_errors f supabase q) = Inr (r\<lparr>error := f r\<rparr>)"
    if "snd (supabase q) = Inr r" for q r
    using that by (simp add: with_errors_def)
  show ?thesis
    unfolding getDashboardStats_fulfilled [OF assms]
      getDashboardStats_fulfilled [OF assms [THEN moved]]
    by simp
qed

theorem getDashboardStats_ignores_error_field_witness:
  "list_all
     (\<lambda>t. \<exists>r. snd (erroring_backend (count_query t)) = Inr r \<and> error r \<noteq> None \<and>
            count r = Null)
     [''contact'', ''projects'', ''blog_posts'', ''services'', ''sectors'', ''navigation'',
      ''skills'', ''chatbot_knowledge''] \<and>
   getDashboardStats erroring_backend =
     Inr \<lparr>contactsCount = 0, projectsCount = 0, blogPostsCount = 0, servicesCount = 0,
          sectorsCount = 0, navigationItemsCount = 0, skillsCount = 0,
          chatbotKnowledgeCount = 0\<rparr> \<and>
   getDashboardStats (with_errors (\<lambda>r. None) erroring_backend) =
     getDashboardStats erroring_backend"
  using getDashboardStats_ignores_error_field [of erroring_backend
      "\<lparr>data = None, error = Some permission_denied, count = Null\<rparr>"
      "\<lparr>data = None, error = Some permission_denied, count = Null\<rparr>"
      "\<lparr>data = None, error = Some permission_denied, count = Null\<rparr>"
      "\<lparr>data = None, error = Some permission_denied, count = Null\<rparr>"
      "\<lparr>data = None, error = Some permission_denied, count = Null\<rparr>"
      "\<lparr>data = None, error = Some permission_denied, count = Null\<rparr>"
      "\<lparr>data = None, error = Some permission_denied, count = Null\<rparr>"
      "\<lparr>data = None, error = Some permission_denied, count = Null\<rparr>"
      "\<lambda>r. None"]
  by (auto simp add: erroring_backend_def)

section \<open>Properties of the best-effort readers\<close>

lemma promise_all_rejects:
  "list_ex rejected ps \<Longrightarrow> \<exists>e. promise_all ps = Inl e"
  by (induction ps) (auto simp add: promise_all_def rejected_def split: sum.splits prod.splits)



section \<open>Properties of the recent-item readers on the remote service\<close>

lemma sorted_desc_sort_key:
  "sorted_wrt (\<ge>) (map created_at (rev (sort_key created_at xs)))"
proof -
  have "sorted (map created_at (sort_key created_at xs))"
    by (rule sorted_sort_key)
  then have "sorted_wrt (\<lambda>x y. y \<ge> x) (map created_at (sort_key created_at xs))"
    by simp
  then have "sorted_wrt (\<ge>) (rev (map created_at (sort_key created_at xs)))"
    by (simp only: sorted_wrt_rev)
  then show ?thesis by (simp add: rev_map)
qed

lemma sorted_wrt_map_take:
  "sorted_wrt P (map f xs) \<Longrightarrow> sorted_wrt P (map f (take n xs))"
  by (simp add: take_map [symmetric])

lemma select_rows_recent:
  "select_rows db (recent_query t cols limit) =
     take (nat limit) (rev (sort_key created_at (db t)))"
  by (simp add: select_rows_def recent_query_def limit_q_def order_q_def from_select_def)

lemma data_or_throw_remote:
  "data_or_throw (remote_backend r q) =
     (case rejection r q of
        Some reason \<Rightarrow> Inl reason
      | None \<Rightarrow>
          (case fault r q of
             Some e \<Rightarrow> Inl e
           | None \<Rightarrow> Inr (if count_exact_head q then [] else select_rows (tables r) q)))"
  by (simp add: data_or_throw_def await_def remote_backend_def split: option.splits)

text \<open>What a reader returns from the remote service.\<close>

lemma recent_rows:
  assumes "0 \<le> limit"
  shows "\<exists>rows. (case data_or_throw (remote_backend r (recent_query t cols limit)) of
                    Inl e \<Rightarrow> Inr []
                  | Inr rows \<Rightarrow> Inr rows) = (Inr rows :: js_error + row list) \<and>
           int (length rows) \<le> limit \<and> sorted_wrt (\<ge>) (map created_at rows) \<and>
           (succeeds r (recent_query t cols limit) \<longrightarrow>
              rows = take (nat limit) (rev (sort_key created_at (tables r t))))"
proof -
  have head: "\<not> count_exact_head (recent_query t cols limit)"
    by (simp add: recent_query_def limit_q_def order_q_def from_select_def)
  have short: "int (length (take (nat limit) xs)) \<le> limit" for xs :: "row list"
    using assms by simp
  have ordered:
    "sorted_wrt (\<ge>) (map created_at (take (nat limit) (rev (sort_key created_at xs))))"
    for xs :: "row list"
    by (rule sorted_wrt_map_take) (rule sorted_desc_sort_key)
  show ?thesis
    using assms short ordered
    by (auto simp add: data_or_throw_remote head select_rows_recent succeeds_def
        split: option.splits)
qed

text \<open>
  C5. For a limit that is a number of rows (not negative), each of \<^verbatim>\<open>getRecentContacts\<close>,
  \<^verbatim>\<open>getRecentProjects\<close> and \<^verbatim>\<open>getRecentBlogPosts\<close> returns at most \<open>limit\<close> rows,
  non-increasing by \<^verbatim>\<open>created_at\<close>, whatever the state of the remote service; when its
  query succeeds these are the \<open>limit\<close> most recent rows of its collection. On every
  backend, a call without the argument is the call with the limit 5.
\<close>

theorem recent_readers_limit_and_order:
  assumes "0 \<le> limit"
  shows "list_all
           (\<lambda>(result, t, cols). \<exists>rows. result = Inr rows \<and> int (length rows) \<le> limit \<and>
              sorted_wrt (\<ge>) (map created_at rows) \<and>
              (succeeds r (recent_query t cols limit) \<longrightarrow>
                 rows = take (nat limit) (rev (sort_key created_at (tables r t)))))
           [(getRecentContacts (remote_backend r) (Some limit),
             ''contact'', ''id, name, email, created_at''),
            (getRecentProjects (remote_backend r) (Some limit),
             ''projects'', ''id, title, status, created_at''),
            (getRecentBlogPosts (remote_backend r) (Some limit),
             ''blog_posts'', ''id, title, status, published_at, created_at'')] \<and>
         getRecentContacts supabase None = getRecentContacts supabase (Some 5) \<and>
         getRecentProjects supabase None = getRecentProjects supabase (Some 5) \<and>
         getRecentBlogPosts supabase None = getRecentBlogPosts supabase (Some 5)"
  using recent_rows [OF assms, of r]
  by (simp add: getRecentContacts_def getRecentProjects_def getRecentBlogPosts_def)

theorem recent_readers_limit_and_order_witness:
  "(0::int) \<le> 2 \<and>
   succeeds sample_remote (recent_query ''contact'' ''id, name, email, created_at'' 2) \<and>
   getRecentContacts (remote_backend sample_remote) (Some 2) =
     Inr [\<lparr>created_at = 99 * day + 5, other_columns = [(''name'', ''Bob'')]\<rparr>,
          \<lparr>created_at = 99 * day, other_columns = [(''name'', ''Cleo'')]\<rparr>] \<and>
   getRecentProjects (remote_backend sample_remote) (Some 2) =
     Inr [\<lparr>created_at = 90 * day, other_columns = [(''title'', ''Site'')]\<rparr>] \<and>
   getRecentBlogPosts (remote_backend sample_remote) (Some 2) = Inr [] \<and>
   getRecentContacts (remote_backend sample_remote) None =
     getRecentContacts (remote_backend sample_remote) (Some 5)"
proof -
  have sorted_contacts:
    "rev (sort_key created_at (sample_db ''contact'')) =
       [\<lparr>created_at = 99 * day + 5, other_columns = [(''name'', ''Bob'')]\<rparr>,
        \<lparr>created_at = 99 * day, other_columns = [(''name'', ''Cleo'')]\<rparr>,
        \<lparr>created_at = 98 * day, other_columns = [(''name'', ''Ada'')]\<rparr>,
        \<lparr>created_at = 75 * day, other_columns = [(''name'', ''Eve'')]\<rparr>,
        \<lparr>created_at = 70 * day, other_columns = [(''name'', ''Fay'')]\<rparr>,
        \<lparr>created_at = 70 * day - 1, other_columns = [(''name'', ''Gus'')]\<rparr>,
        \<lparr>created_at = 12 * day, other_columns = [(''name'', ''Dan'')]\<rparr>]"
    by (simp add: sample_db_def day_def)
  have sorted_projects:
    "rev (sort_key created_at (sample_db ''projects'')) =
       [\<lparr>created_at = 90 * day, other_columns = [(''title'', ''Site'')]\<rparr>]"
    by (simp add: sample_db_def)
  have sorted_posts: "rev (sort_key created_at (sample_db ''blog_posts'')) = []"
    by (simp add: sample_db_def)
  have all_succeed: "succeeds sample_remote q" for q
    by (simp add: succeeds_def sample_remote_def)
  have held: "tables sample_remote = sample_db"
    by (simp add: sample_remote_def)
  show ?thesis
    using recent_readers_limit_and_order [of 2 sample_remote "remote_backend sample_remote"]
    by (auto simp add: all_succeed held sorted_contacts sorted_projects sorted_posts
        numeral_2_eq_2)
qed

section \<open>Properties of getStatsEvolution\<close>

lemma or_zero_num_eq: "or_zero_num v = (case v of None \<Rightarrow> 0 | Some n \<Rightarrow> n)"
  by (cases v) auto

lemma sum_update_bump:
  "sum_list (map snd (AList.update k (or_zero_num (map_of g k) + 1) g)) =
   sum_list (map snd g) + 1"
  by (induction g) (auto simp add: or_zero_num_eq)

lemma sum_fold_count_item:
  "sum_list (map snd (fold (count_item env) rows g)) = sum_list (map snd g) + int (length rows)"
  by (induction rows arbitrary: g) (simp_all add: count_item_def Let_def sum_update_bump)

lemma distinct_fold_count_item:
  "distinct (map fst g) \<Longrightarrow> distinct (map fst (fold (count_item env) rows g))"
  by (induction rows arbitrary: g) (simp_all add: count_item_def Let_def distinct_update)

lemma map_of_fold_count_item:
  "map_of (fold (count_item env) rows g) k =
     (if [r\<leftarrow>rows. toLocaleDateString_fr env (created_at r) = k] = [] then map_of g k
      else Some (or_zero_num (map_of g k) +
                 int (length [r\<leftarrow>rows. toLocaleDateString_fr env (created_at r) = k])))"
  by (induction rows arbitrary: g)
    (auto simp add: count_item_def Let_def update_conv' or_zero_num_eq)

lemma groupByDay_Nil: "groupByDay env [] = []"
  by (simp add: groupByDay_def)

lemma groupByDay_sum: "sum_list (map snd (groupByDay env rows)) = int (length rows)"
  by (simp add: groupByDay_def sum_fold_count_item)

lemma groupByDay_distinct: "distinct (map fst (groupByDay env rows))"
  by (simp add: groupByDay_def distinct_fold_count_item)

lemma groupByDay_entry:
  assumes "(k, n) \<in> set (groupByDay env rows)"
  shows "n = int (length [r\<leftarrow>rows. toLocaleDateString_fr env (created_at r) = k]) \<and> 1 \<le> n \<and>
         (\<exists>r\<in>set rows. k = toLocaleDateString_fr env (created_at r))"
proof -
  from assms have "map_of (groupByDay env rows) k = Some n"
    by (simp add: groupByDay_distinct)
  then have found: "[r\<leftarrow>rows. toLocaleDateString_fr env (created_at r) = k] \<noteq> []"
    and n: "n = int (length [r\<leftarrow>rows. toLocaleDateString_fr env (created_at r) = k])"
    by (auto simp add: groupByDay_def map_of_fold_count_item split: if_splits)
  from found have "1 \<le> length [r\<leftarrow>rows. toLocaleDateString_fr env (created_at r) = k]"
    by (cases "[r\<leftarrow>rows. toLocaleDateString_fr env (created_at r) = k]") auto
  moreover from found obtain r where
    "r \<in> set rows" "toLocaleDateString_fr env (created_at r) = k"
    by (auto simp add: filter_empty_conv)
  ultimately show ?thesis using n by auto
qed

text \<open>
  The buckets of the items of a collection that pass the lower bound of the window, when
  no item is dated after its upper bound.
\<close>

lemma groupByDay_window:
  assumes "list_all (\<lambda>x. created_at x \<le> upper) items"
  shows "distinct (map fst (groupByDay env [x\<leftarrow>items. lower \<le> created_at x])) \<and>
         list_all
           (\<lambda>(k, n). 1 \<le> n \<and>
              n = int (length [x\<leftarrow>items. lower \<le> created_at x \<and> created_at x \<le> upper \<and>
                                 toLocaleDateString_fr env (created_at x) = k]) \<and>
              list_ex (\<lambda>x. lower \<le> created_at x \<and> created_at x \<le> upper \<and>
                           k = toLocaleDateString_fr env (created_at x)) items)
           (groupByDay env [x\<leftarrow>items. lower \<le> created_at x]) \<and>
         sum_list (map snd (groupByDay env [x\<leftarrow>items. lower \<le> created_at x])) =
           int (length [x\<leftarrow>items. lower \<le> created_at x \<and> created_at x \<le> upper])"
proof -
  let ?rows = "[x\<leftarrow>items. lower \<le> created_at x]"
  from assms have past: "created_at x \<le> upper" if "x \<in> set items" for x
    using that by (simp add: list_all_iff)
  have all: "[x\<leftarrow>items. lower \<le> created_at x \<and> created_at x \<le> upper] = ?rows"
    by (rule filter_cong) (auto simp add: past)
  have per_day:
    "[x\<leftarrow>items. lower \<le> created_at x \<and> created_at x \<le> upper \<and>
                toLocaleDateString_fr env (created_at x) = k] =
     [x\<leftarrow>?rows. toLocaleDateString_fr env (created_at x) = k]"
    for k
    unfolding filter_filter by (rule filter_cong) (auto simp add: past)
  have entries:
    "list_all
       (\<lambda>(k, n). 1 \<le> n \<and>
          n = int (length [x\<leftarrow>items. lower \<le> created_at x \<and> created_at x \<le> upper \<and>
                             toLocaleDateString_fr env (created_at x) = k]) \<and>
          list_ex (\<lambda>x. lower \<le> created_at x \<and> created_at x \<le> upper \<and>
                       k = toLocaleDateString_fr env (created_at x)) items)
       (groupByDay env ?rows)"
    unfolding list_all_iff
  proof (intro ballI, clarify)
    fix k n
    assume "(k, n) \<in> set (groupByDay env ?rows)"
    from groupByDay_entry [OF this] obtain r where
      n: "n = int (length [x\<leftarrow>?rows. toLocaleDateString_fr env (created_at x) = k])"
      and "1 \<le> n" and "r \<in> set ?rows" and "k = toLocaleDateString_fr env (created_at r)"
      by blast
    then have "list_ex (\<lambda>x. lower \<le> created_at x \<and> created_at x \<le> upper \<and>
                       k = toLocaleDateString_fr env (created_at x)) items"
      unfolding list_ex_iff using past by auto
    with n \<open>1 \<le> n\<close> show "1 \<le> n \<and>
          n = int (length [x\<leftarrow>items. lower \<le> created_at x \<and> created_at x \<le> upper \<and>
                             toLocaleDateString_fr env (created_at x) = k]) \<and>
          list_ex (\<lambda>x. lower \<le> created_at x \<and> created_at x \<le> upper \<and>
                       k = toLocaleDateString_fr env (created_at x)) items"
      by (simp only: per_day)
  qed
  have total: "sum_list (map snd (groupByDay env ?rows)) =
      int (length [x\<leftarrow>items. lower \<le> created_at x \<and> created_at x \<le> upper])"
    by (simp only: all groupByDay_sum)
  from entries total show ?thesis
    by (simp only: groupByDay_distinct simp_thms)
qed

lemma evolution_answer:
  assumes "succeeds r (evolution_query env t)"
  shows "snd (remote_backend r (evolution_query env t)) =
           Inr \<lparr>data = Some [x\<leftarrow>tables r t. setDate_minus env (now env) 30 \<le> created_at x],
                error = None, count = Null\<rparr>"
  using assms
  by (simp add: succeeds_def remote_backend_def select_rows_def evolution_query_def gte_q_def
      from_select_def thirtyDaysAgo_def)

text \<open>
  C3, as the code has it. When the three queries of the batch succeed (none rejects, none
  returns an error) and no item of the three collections is dated after the time of the
  query, each map of the result has distinct keys; every key is the local day of an item
  of its collection created within the window that starts thirty calendar days before
  the query and ends with it; its value is the number of the items of the window on that
  day, at least 1; and the values of a map add up to the number of the items of that kind
  created within the window.
\<close>

theorem getStatsEvolution_buckets:
  assumes "list_all (\<lambda>t. succeeds r (evolution_query env t))
             [''contact'', ''projects'', ''blog_posts'']"
    and "list_all (\<lambda>t. list_all (\<lambda>x. created_at x \<le> now env) (tables r t))
           [''contact'', ''projects'', ''blog_posts'']"
  shows "\<exists>evolution. getStatsEvolution env (remote_backend r) = Inr evolution \<and>
           list_all2
             (\<lambda>grouped items.
                distinct (map fst grouped) \<and>
                list_all
                  (\<lambda>(k, n). 1 \<le> n \<and>
                     n = int (length
                           [x\<leftarrow>items. setDate_minus env (now env) 30 \<le> created_at x \<and>
                                      created_at x \<le> now env \<and>
                                      toLocaleDateString_fr env (created_at x) = k]) \<and>
                     list_ex (\<lambda>x. setDate_minus env (now env) 30 \<le> created_at x \<and>
                                  created_at x \<le> now env \<and>
                                  k = toLocaleDateString_fr env (created_at x)) items)
                  grouped \<and>
                sum_list (map snd grouped) =
                  int (length [x\<leftarrow>items. setDate_minus env (now env) 30 \<le> created_at x \<and>
                                         created_at x \<le> now env]))
             [contacts evolution, projects evolution, blogPosts evolution]
             [tables r ''contact'', tables r ''projects'', tables r ''blog_posts'']"
proof -
  from assms(1) have c: "succeeds r (evolution_query env ''contact'')"
    and p: "succeeds r (evolution_query env ''projects'')"
    and b: "succeeds r (evolution_query env ''blog_posts'')"
    by simp_all
  from assms(2) have past_c: "list_all (\<lambda>x. created_at x \<le> now env) (tables r ''contact'')"
    and past_p: "list_all (\<lambda>x. created_at x \<le> now env) (tables r ''projects'')"
    and past_b: "list_all (\<lambda>x. created_at x \<le> now env) (tables r ''blog_posts'')"
    by simp_all
  have "getStatsEvolution env (remote_backend r) =
      Inr \<lparr>contacts = groupByDay env
                         [x\<leftarrow>tables r ''contact''. setDate_minus env (now env) 30 \<le> created_at x],
           projects = groupByDay env
                         [x\<leftarrow>tables r ''projects''. setDate_minus env (now env) 30 \<le> created_at x],
           blogPosts = groupByDay env
                         [x\<leftarrow>tables r ''blog_posts''.
                            setDate_minus env (now env) 30 \<le> created_at x]\<rparr>"
    unfolding getStatsEvolution_def
    by (simp add: promise_all_Cons_fulfilled [OF evolution_answer [OF c]]
        promise_all_Cons_fulfilled [OF evolution_answer [OF p]]
        promise_all_Cons_fulfilled [OF evolution_answer [OF b]] promise_all_Nil)
  then show ?thesis
    using groupByDay_window [OF past_c, of env "setDate_minus env (now env) 30"]
      groupByDay_window [OF past_p, of env "setDate_minus env (now env) 30"]
      groupByDay_window [OF past_b, of env "setDate_minus env (now env) 30"]
    by simp
qed

text \<open>The evolution of the sample collections, step by step.\<close>

lemma sample_window:
  "[x\<leftarrow>sample_db ''contact''. setDate_minus sample_env (now sample_env) 30 \<le> created_at x] =
     [\<lparr>created_at = 98 * day, other_columns = [(''name'', ''Ada'')]\<rparr>,
      \<lparr>created_at = 99 * day + 5, other_columns = [(''name'', ''Bob'')]\<rparr>,
      \<lparr>created_at = 99 * day, other_columns = [(''name'', ''Cleo'')]\<rparr>,
      \<lparr>created_at = 75 * day, other_columns = [(''name'', ''Eve'')]\<rparr>,
      \<lparr>created_at = 70 * day, other_columns = [(''name'', ''Fay'')]\<rparr>]"
  "[x\<leftarrow>sample_db ''projects''. setDate_minus sample_env (now sample_env) 30 \<le> created_at x] =
     [\<lparr>created_at = 90 * day, other_columns = [(''title'', ''Site'')]\<rparr>]"
  "[x\<leftarrow>sample_db ''blog_posts''. setDate_minus sample_env (now sample_env) 30 \<le> created_at x] =
     []"
  by (simp_all add: sample_db_def sample_env_def day_def)

lemma sample_groupByDay:
  "groupByDay sample_env
     [\<lparr>created_at = 98 * day, other_columns = [(''name'', ''Ada'')]\<rparr>,
      \<lparr>created_at = 99 * day + 5, other_columns = [(''name'', ''Bob'')]\<rparr>,
      \<lparr>created_at = 99 * day, other_columns = [(''name'', ''Cleo'')]\<rparr>,
      \<lparr>created_at = 75 * day, other_columns = [(''name'', ''Eve'')]\<rparr>,
      \<lparr>created_at = 70 * day, other_columns = [(''name'', ''Fay'')]\<rparr>] =
   [(''09/04/1970'', 1), (''10/04/1970'', 2), (''17/03/1970'', 1), (''12/03/1970'', 1)]"
  "groupByDay sample_env
     [\<lparr>created_at = 90 * day, other_columns = [(''title'', ''Site'')]\<rparr>] =
   [(''01/04/1970'', 1)]"
  "groupByDay sample_env
     [\<lparr>created_at = 98 * day, other_columns = [(''name'', ''Ada'')]\<rparr>,
      \<lparr>created_at = 99 * day + 5, other_columns = [(''name'', ''Bob'')]\<rparr>,
      \<lparr>created_at = 99 * day, other_columns = [(''name'', ''Cleo'')]\<rparr>,
      \<lparr>created_at = 75 * day, other_columns = [(''name'', ''Eve'')]\<rparr>,
      \<lparr>created_at = 70 * day, other_columns = [(''name'', ''Fay'')]\<rparr>,
      \<lparr>created_at = 140 * day, other_columns = [(''name'', ''Hal'')]\<rparr>] =
   [(''09/04/1970'', 1), (''10/04/1970'', 2), (''17/03/1970'', 1), (''12/03/1970'', 1),
    (''21/05/1970'', 1)]"
  by (simp_all add: groupByDay_def count_item_def sample_env_def day_def)

lemma sample_in_window:
  "length [x\<leftarrow>sample_db ''contact''.
             setDate_minus sample_env (now sample_env) 30 \<le> created_at x \<and>
             created_at x \<le> now sample_env] = 5"
  by (simp add: sample_db_def sample_env_def day_def)

lemma sample_evolution:
  "getStatsEvolution sample_env (remote_backend sample_remote) =
     Inr \<lparr>contacts = [(''09/04/1970'', 1), (''10/04/1970'', 2), (''17/03/1970'', 1),
                      (''12/03/1970'', 1)],
          projects = [(''01/04/1970'', 1)], blogPosts = []\<rparr>"
proof -
  have ok: "succeeds sample_remote q" for q
    by (simp add: succeeds_def sample_remote_def)
  have held: "tables sample_remote = sample_db"
    by (simp add: sample_remote_def)
  show ?thesis
    unfolding getStatsEvolution_def
    by (simp add: promise_all_Cons_fulfilled [OF evolution_answer [OF ok]] promise_all_Nil held
        sample_window sample_groupByDay groupByDay_Nil)
qed

theorem getStatsEvolution_buckets_witness:
  "list_all (\<lambda>t. succeeds sample_remote (evolution_query sample_env t))
     [''contact'', ''projects'', ''blog_posts''] \<and>
   list_all (\<lambda>t. list_all (\<lambda>x. created_at x \<le> now sample_env) (tables sample_remote t))
     [''contact'', ''projects'', ''blog_posts''] \<and>
   getStatsEvolution sample_env (remote_backend sample_remote) =
     Inr \<lparr>contacts = [(''09/04/1970'', 1), (''10/04/1970'', 2), (''17/03/1970'', 1),
                      (''12/03/1970'', 1)],
          projects = [(''01/04/1970'', 1)], blogPosts = []\<rparr> \<and>
   sum_list (map snd [(''09/04/1970'', 1), (''10/04/1970'', 2), (''17/03/1970'', 1),
                      (''12/03/1970'', 1 :: int)]) =
     int (length [x\<leftarrow>tables sample_remote ''contact''.
                    setDate_minus sample_env (now sample_env) 30 \<le> created_at x \<and>
                    created_at x \<le> now sample_env])"
proof -
  have ok: "list_all (\<lambda>t. succeeds sample_remote (evolution_query sample_env t))
     [''contact'', ''projects'', ''blog_posts'']"
    by (simp add: succeeds_def sample_remote_def)
  have past: "list_all
      (\<lambda>t. list_all (\<lambda>x. created_at x \<le> now sample_env) (tables sample_remote t))
      [''contact'', ''projects'', ''blog_posts'']"
    by (simp add: sample_remote_def sample_db_def sample_env_def day_def)
  from getStatsEvolution_buckets [OF ok past]
  have "sum_list (map snd [(''09/04/1970'', 1), (''10/04/1970'', 2), (''17/03/1970'', 1),
                      (''12/03/1970'', 1 :: int)]) =
     int (length [x\<leftarrow>tables sample_remote ''contact''.
                    setDate_minus sample_env (now sample_env) 30 \<le> created_at x \<and>
                    created_at x \<le> now sample_env])"
    unfolding sample_evolution by simp
  with ok past sample_evolution show ?thesis
    by simp
qed

text \<open>
  C3, as the claim has it ("for every result"), fails in three ways. The sample contacts
  hold five items created within the window. When the query on projects rejects, all
  three maps are empty; when the query on contacts is fulfilled with an error, the map of
  the contacts is empty while the projects are counted; in both cases the values of the
  contacts add up to 0. When the collection also holds a contact dated forty days after
  the query, that contact gets a bucket of its own, for a day after the window, and the
  values add up to 6.
\<close>

theorem getStatsEvolution_counterexample:
  "length [x\<leftarrow>sample_db ''contact''.
             setDate_minus sample_env (now sample_env) 30 \<le> created_at x \<and>
             created_at x \<le> now sample_env] = 5 \<and>
   getStatsEvolution sample_env partly_rejecting_backend =
     Inr \<lparr>contacts = [], projects = [], blogPosts = []\<rparr> \<and>
   getStatsEvolution sample_env (remote_backend contact_error_remote) =
     Inr \<lparr>contacts = [], projects = [(''01/04/1970'', 1)], blogPosts = []\<rparr> \<and>
   sum_list (map snd ([] :: buckets)) \<noteq> 5 \<and>
   getStatsEvolution sample_env (remote_backend future_remote) =
     Inr \<lparr>contacts = [(''09/04/1970'', 1), (''10/04/1970'', 2), (''17/03/1970'', 1),
                      (''12/03/1970'', 1), (''21/05/1970'', 1)],
          projects = [(''01/04/1970'', 1)], blogPosts = []\<rparr> \<and>
   now sample_env < 140 * day \<and>
   toLocaleDateString_fr sample_env (140 * day) = ''21/05/1970'' \<and>
   sum_list (map snd [(''09/04/1970'', 1), (''10/04/1970'', 2), (''17/03/1970'', 1),
                      (''12/03/1970'', 1), (''21/05/1970'', 1 :: int)]) \<noteq> 5"
proof -
  have "list_ex rejected
      [partly_rejecting_backend (evolution_query sample_env ''contact''),
       partly_rejecting_backend (evolution_query sample_env ''projects''),
       partly_rejecting_backend (evolution_query sample_env ''blog_posts'')]"
    by (simp add: rejected_def partly_rejecting_backend_def remote_backend_def
        sample_remote_def evolution_query_def gte_q_def from_select_def)
  from promise_all_rejects [OF this] have rejecting:
    "getStatsEvolution sample_env partly_rejecting_backend =
       Inr \<lparr>contacts = [], projects = [], blogPosts = []\<rparr>"
    by (auto simp add: getStatsEvolution_def)
  have contact_error:
    "snd (remote_backend contact_error_remote (evolution_query sample_env ''contact'')) =
       Inr \<lparr>data = None, error = Some permission_denied, count = Null\<rparr>"
    by (simp add: remote_backend_def contact_error_remote_def sample_remote_def
        evolution_query_def gte_q_def from_select_def)
  have others: "succeeds contact_error_remote (evolution_query sample_env ''projects'')"
    "succeeds contact_error_remote (evolution_query sample_env ''blog_posts'')"
    by (simp_all add: succeeds_def contact_error_remote_def sample_remote_def
        evolution_query_def gte_q_def from_select_def)
  have held: "tables contact_error_remote = sample_db"
    by (simp add: contact_error_remote_def sample_remote_def)
  have erroring:
    "getStatsEvolution sample_env (remote_backend contact_error_remote) =
       Inr \<lparr>contacts = [], projects = [(''01/04/1970'', 1)], blogPosts = []\<rparr>"
    unfolding getStatsEvolution_def
    by (simp add: promise_all_Cons_fulfilled [OF contact_error]
        promise_all_Cons_fulfilled [OF evolution_answer [OF others(1)]]
        promise_all_Cons_fulfilled [OF evolution_answer [OF others(2)]] promise_all_Nil held
        sample_window sample_groupByDay groupByDay_Nil)
  have ok: "succeeds future_remote q" for q
    by (simp add: succeeds_def future_remote_def sample_remote_def)
  have future_tables:
    "tables future_remote ''contact'' =
       sample_db ''contact'' @
       [\<lparr>created_at = 140 * day, other_columns = [(''name'', ''Hal'')]\<rparr>]"
    "tables future_remote ''projects'' = sample_db ''projects''"
    "tables future_remote ''blog_posts'' = sample_db ''blog_posts''"
    by (simp_all add: future_remote_def sample_remote_def)
  have late: "setDate_minus sample_env (now sample_env) 30 \<le> 140 * day"
    by (simp add: sample_env_def day_def)
  have future:
    "getStatsEvolution sample_env (remote_backend future_remote) =
       Inr \<lparr>contacts = [(''09/04/1970'', 1), (''10/04/1970'', 2), (''17/03/1970'', 1),
                        (''12/03/1970'', 1), (''21/05/1970'', 1)],
            projects = [(''01/04/1970'', 1)], blogPosts = []\<rparr>"
    unfolding getStatsEvolution_def
    by (simp add: promise_all_Cons_fulfilled [OF evolution_answer [OF ok]] promise_all_Nil
        future_tables late sample_window sample_groupByDay groupByDay_Nil)
  have dated: "now sample_env < 140 * day"
    "toLocaleDateString_fr sample_env (140 * day) = ''21/05/1970''"
    by (simp_all add: sample_env_def day_def)
  from rejecting erroring future dated sample_in_window show ?thesis
    by simp
qed

section \<open>Properties of the Sectors page\<close>

text \<open>
  C4. In creation mode the only mutation \<^verbatim>\<open>handleSubmit\<close> calls is the creation, and
  the \<^verbatim>\<open>case_study\<close> of the \<^verbatim>\<open>content_modal\<close> it sends is the object made of the
  \<^verbatim>\<open>case_study_title\<close> and the \<^verbatim>\<open>case_study_results\<close> of the form.
\<close>

theorem create_payload_case_study:
  assumes "editingSector s = None"
  shows "\<exists>sectorData rest.
           snd (handleSubmit m s formData) = Create_call sectorData # rest \<and>
           list_all
             (\<lambda>e. case e of Create_call d \<Rightarrow> False | Update_call i d \<Rightarrow> False | _ \<Rightarrow> True)
             rest \<and>
           case_study (content_modal sectorData) =
             \<lparr>title = case_study_title formData, results = case_study_results formData\<rparr>"
  using assms
  by (auto simp add: handleSubmit_def Let_def submit_catch_def build_sectorData_def
      build_content_modal_def split: sum.splits)

theorem create_payload_case_study_witness:
  "editingSector (handleCreate initial_state) = None \<and>
   (\<exists>sectorData. snd (handleSubmit accepting (handleCreate initial_state) sample_form) =
      [Create_call sectorData, Toast_success Sector_created] \<and>
      case_study (content_modal sectorData) =
        \<lparr>title = ''Clinique du Parc'', results = ''+30% de rendez-vous''\<rparr>)"
  using create_payload_case_study [of "handleCreate initial_state" accepting sample_form]
  by (auto simp add: handleCreate_def initial_state_def handleSubmit_def Let_def accepting_def
      build_sectorData_def build_content_modal_def sample_form_def)

text \<open>
  C6. When the creation is rejected, the notification is the duplicate-identifier message
  if the code of the error is the string \<^verbatim>\<open>23505\<close>, and the generic creation-failure
  message for any other error.
\<close>

theorem create_failure_message:
  assumes "editingSector s = None"
    and "createMutation m (build_sectorData formData) = Inl err"
  shows "snd (handleSubmit m s formData) =
           [Create_call (build_sectorData formData), Console_error err,
            Toast_error (if code err = StrCode ''23505'' then Duplicate_id else Create_failed)]"
  using assms by (simp add: handleSubmit_def Let_def submit_catch_def)

theorem create_failure_message_witness:
  "editingSector (handleCreate initial_state) = None \<and>
   createMutation (rejecting_with unique_violation) (build_sectorData sample_form) =
     Inl unique_violation \<and>
   createMutation (rejecting_with network_error) (build_sectorData sample_form) =
     Inl network_error \<and>
   snd (handleSubmit (rejecting_with unique_violation) (handleCreate initial_state)
          sample_form) =
     [Create_call (build_sectorData sample_form), Console_error unique_violation,
      Toast_error Duplicate_id] \<and>
   snd (handleSubmit (rejecting_with network_error) (handleCreate initial_state) sample_form) =
     [Create_call (build_sectorData sample_form), Console_error network_error,
      Toast_error Create_failed]"
  using create_failure_message [of "handleCreate initial_state"
      "rejecting_with unique_violation" sample_form unique_violation]
    create_failure_message [of "handleCreate initial_state" "rejecting_with network_error"
      sample_form network_error]
  by (simp add: handleCreate_def initial_state_def rejecting_with_def unique_violation_def
      network_error_def)

text \<open>
  C7. When the awaited mutation resolves, \<^verbatim>\<open>handleSubmit\<close> shows a success notification,
  closes the modal and clears the edit target; when it is rejected, the state is left as
  it was (the modal open, the edit target kept) and an error notification is shown.
\<close>

theorem handleSubmit_transitions:
  "(awaited_mutation m s formData = Inr () \<longrightarrow>
      (\<exists>msg. handleSubmit m s formData =
         (s\<lparr>isModalOpen := False, editingSector := None\<rparr>,
          [mutation_call s formData, Toast_success msg]))) \<and>
   (\<forall>err. awaited_mutation m s formData = Inl err \<longrightarrow>
      (\<exists>msg. handleSubmit m s formData =
         (s, [mutation_call s formData, Console_error err, Toast_error msg])))"
  by (auto simp add: handleSubmit_def Let_def submit_catch_def awaited_mutation_def
      mutation_call_def split: option.splits sum.splits)

theorem handleSubmit_transitions_witness:
  "awaited_mutation accepting (handleEdit sample_sector initial_state) sample_form = Inr () \<and>
   handleSubmit accepting (handleEdit sample_sector initial_state) sample_form =
     (initial_state,
      [Update_call ''finance'' (build_sectorData sample_form), Toast_success Sector_updated]) \<and>
   awaited_mutation (rejecting_with network_error) (handleEdit sample_sector initial_state)
     sample_form = Inl network_error \<and>
   handleSubmit (rejecting_with network_error) (handleEdit sample_sector initial_state)
     sample_form =
     (\<lparr>isModalOpen = True, isDeleteModalOpen = False, editingSector = Some sample_sector,
       deletingSector = None\<rparr>,
      [Update_call ''finance'' (build_sectorData sample_form), Console_error network_error,
       Toast_error Update_failed])"
  using handleSubmit_transitions [of accepting "handleEdit sample_sector initial_state"
      sample_form]
    handleSubmit_transitions [of "rejecting_with network_error"
      "handleEdit sample_sector initial_state" sample_form]
  by (auto simp add: awaited_mutation_def mutation_call_def handleEdit_def initial_state_def
      accepting_def rejecting_with_def sample_sector_def handleSubmit_def Let_def
      submit_catch_def network_error_def)

text \<open>
  C8. With a delete target set: when the deletion is rejected, \<^verbatim>\<open>handleConfirmDelete\<close>
  leaves the state as it was (the target kept, the open flag of the confirmation modal
  untouched) and shows the failure notification; when it resolves, the confirmation modal
  is closed, the target is cleared and the success notification is shown.
\<close>

theorem handleConfirmDelete_outcomes:
  assumes "deletingSector s = Some sector"
  shows "(\<forall>err. deleteMutation m (sector_id sector) = Inl err \<longrightarrow>
            handleConfirmDelete m s =
              (s, [Delete_call (sector_id sector), Console_error err,
                   Toast_error Delete_failed])) \<and>
         (deleteMutation m (sector_id sector) = Inr () \<longrightarrow>
            handleConfirmDelete m s =
              (s\<lparr>isDeleteModalOpen := False, deletingSector := None\<rparr>,
               [Delete_call (sector_id sector), Toast_success Sector_deleted]))"
  using assms by (simp add: handleConfirmDelete_def)

theorem handleConfirmDelete_outcomes_witness:
  "deletingSector (handleDeleteClick sample_sector initial_state) = Some sample_sector \<and>
   deleteMutation (rejecting_with network_error) (sector_id sample_sector) =
     Inl network_error \<and>
   handleConfirmDelete (rejecting_with network_error)
     (handleDeleteClick sample_sector initial_state) =
     (\<lparr>isModalOpen = False, isDeleteModalOpen = True, editingSector = None,
       deletingSector = Some sample_sector\<rparr>,
      [Delete_call ''finance'', Console_error network_error, Toast_error Delete_failed]) \<and>
   deleteMutation accepting (sector_id sample_sector) = Inr () \<and>
   handleConfirmDelete accepting (handleDeleteClick sample_sector initial_state) =
     (initial_state, [Delete_call ''finance'', Toast_success Sector_deleted])"
  using handleConfirmDelete_outcomes [of "handleDeleteClick sample_sector initial_state"
      sample_sector "rejecting_with network_error"]
    handleConfirmDelete_outcomes [of "handleDeleteClick sample_sector initial_state"
      sample_sector accepting]
  by (simp add: handleDeleteClick_def initial_state_def rejecting_with_def accepting_def
      sample_sector_def)

text \<open>
  C10. In edit mode, when the update is rejected with an error whose code is the string
  \<^verbatim>\<open>23505\<close>, the notification is the duplicate-identifier message and not the generic
  update-failure message: the test of the code comes before the test of the mode.
\<close>

theorem update_duplicate_message:
  assumes "editingSector s = Some sector"
    and "updateMutation m (sector_id sector) (build_sectorData formData) = Inl err"
    and "code err = StrCode ''23505''"
  shows "handleSubmit m s formData =
           (s, [Update_call (sector_id sector) (build_sectorData formData), Console_error err,
                Toast_error Duplicate_id])"
  using assms by (simp add: handleSubmit_def Let_def submit_catch_def)

theorem update_duplicate_message_witness:
  "editingSector (handleEdit sample_sector initial_state) = Some sample_sector \<and>
   updateMutation (rejecting_with unique_violation) (sector_id sample_sector)
     (build_sectorData sample_form) = Inl unique_violation \<and>
   code unique_violation = StrCode ''23505'' \<and>
   snd (handleSubmit (rejecting_with unique_violation) (handleEdit sample_sector initial_state)
          sample_form) =
     [Update_call ''finance'' (build_sectorData sample_form), Console_error unique_violation,
      Toast_error Duplicate_id]"
  using update_duplicate_message [of "handleEdit sample_sector initial_state" sample_sector
      "rejecting_with unique_violation" sample_form unique_violation]
  by (simp add: handleEdit_def initial_state_def rejecting_with_def unique_violation_def
      sample_sector_def)

end
